theory Spec2Isabelle
  imports Complex_Main
begin

section \<open>Style transfer: \<^verbatim>\<open>maua/style/image.py\<close>\<close>

text \<open>
  The function \<^verbatim>\<open>transfer\<close> drives collaborators that live outside the two source
  files: the image loader, the resampler, the histogram matcher, the registries of
  parameterizations, perceptors and optimizers, and the tensor library. They are
  parameters of the model (the record \<open>collab\<close>); \<^verbatim>\<open>transfer\<close> itself, its nested
  \<^verbatim>\<open>closure\<close> and its loop are translated line by line. Every call that the source
  makes on a collaborator is appended to a trace, so that the order and the number of
  the calls can be stated. Python numbers (weights, sizes, learning rate) are read as
  reals; an image tensor has rank 4, so \<^verbatim>\<open>shape[2]\<close> and \<^verbatim>\<open>shape[3]\<close> are its height
  and width.
\<close>

datatype error = ConfigurationError | InvalidInput | UnboundLocalError | IndexError

text \<open>The argument \<^verbatim>\<open>match_hist\<close>: a mode name such as \<^verbatim>\<open>"avg"\<close>, or \<^verbatim>\<open>False\<close>.\<close>

datatype hist_mode = HistMode string | HistOff

datatype ('img, 'emb, 'l) event =
    EvLoadImages
  | EvToDevice
  | EvResample real
  | EvMatchHistogram
  | EvLoadParameterization string
  | EvConstructParameterization nat nat "'img option"
  | EvLoadPerceptor string
  | EvConstructPerceptor
  | EvGetTargetEmbeddings
  | EvGcCollect
  | EvEmptyCache
  | EvLoadOptimizer string
  | EvStep
  | EvZeroGrad
  | EvUpdateEma
  | EvDecode
  | EvGetLoss 'img 'emb
  | EvTvLoss 'img
  | EvBackward 'l
  | EvPbarUpdate
  | EvDecodeAverage

text \<open>
  What one call of \<^verbatim>\<open>opt.step(closure)\<close> may do: evaluate the closure and go on with
  the loss it returned, read the parameterization's parameters (values and
  gradients), write them, and finally return with the adapter's new internal state.
\<close>

datatype ('l, 'p, 'o) step_prog =
    Finish 'o
  | Eval "'l \<Rightarrow> ('l, 'p, 'o) step_prog"
  | ReadParams "'p \<Rightarrow> ('l, 'p, 'o) step_prog"
  | WriteParams 'p "('l, 'p, 'o) step_prog"

record ('src, 'img, 'p, 'perc, 'emb, 'l, 'o, 'kw) collab =
  load_image :: "'src \<Rightarrow> error + 'img"
  img_to :: "'img \<Rightarrow> string \<Rightarrow> 'img"
  resample :: "'img \<Rightarrow> real \<Rightarrow> 'img"
  match_histogram :: "'img \<Rightarrow> 'img list \<Rightarrow> hist_mode \<Rightarrow> 'img"
  img_height :: "'img \<Rightarrow> nat"
  img_width :: "'img \<Rightarrow> nat"
  parameterizations :: "string \<Rightarrow> (nat \<Rightarrow> nat \<Rightarrow> 'img option \<Rightarrow> 'p) option"
  param_to :: "'p \<Rightarrow> string \<Rightarrow> 'p"
  update_ema :: "'p \<Rightarrow> 'p"
  decode :: "'p \<Rightarrow> 'img"
  decode_average :: "'p \<Rightarrow> 'img"
  perceptors :: "string \<Rightarrow> (real \<Rightarrow> real \<Rightarrow> 'kw \<Rightarrow> 'perc) option"
  perc_to :: "'perc \<Rightarrow> string \<Rightarrow> 'perc"
  get_target_embeddings :: "'perc \<Rightarrow> 'img \<Rightarrow> 'img list \<Rightarrow> 'emb"
  get_loss :: "'perc \<Rightarrow> 'img \<Rightarrow> 'emb \<Rightarrow> 'l"
  tv_loss :: "'img \<Rightarrow> 'l"
  loss_add :: "'l \<Rightarrow> 'l \<Rightarrow> 'l"
  loss_scale :: "real \<Rightarrow> 'l \<Rightarrow> 'l"
  backward :: "'l \<Rightarrow> 'p \<Rightarrow> 'p"
  optimizers :: "string \<Rightarrow> (real \<Rightarrow> 'kw \<Rightarrow> int \<Rightarrow> 'p \<Rightarrow> 'o \<times> int) option"
  zero_grad :: "'p \<Rightarrow> 'p"
  opt_step :: "'o \<Rightarrow> ('l, 'p, 'o) step_prog"

text \<open>The keyword arguments of \<^verbatim>\<open>transfer\<close>.\<close>

record ('src, 'kw) transfer_args =
  content_img :: 'src
  style_imgs :: "'src list"
  init_img :: "'src option"
  init_type :: string
  match_hist :: hist_mode
  size_px :: real
  parameterization :: string
  perceptor :: string
  perceptor_kwargs :: 'kw
  optimizer :: string
  lr :: real
  optimizer_kwargs :: 'kw
  n_iters :: int
  content_weight :: real
  style_weight :: real
  tv_weight :: real
  style_scale :: real
  device :: string

text \<open>The state that the optimization loop mutates: the parameterization and the trace.\<close>

record ('p, 'ev) world =
  pastiche :: 'p
  trace :: "'ev list"

subsection \<open>Collaborators of the repository that are not among the source files\<close>

fun load_all :: "('src \<Rightarrow> error + 'img) \<Rightarrow> 'src list \<Rightarrow> error + 'img list" where
  "load_all f [] = Inr []"
| "load_all f (x # xs) =
     (case f x of
        Inl e \<Rightarrow> Inl e
      | Inr i \<Rightarrow> (case load_all f xs of Inl e \<Rightarrow> Inl e | Inr is \<Rightarrow> Inr (i # is)))"

text \<open>
  Modelled from the spec: \<^verbatim>\<open>load_images\<close> of \<^verbatim>\<open>maua.ops.tensor\<close> is missing. It accepts
  a content input, a list of style inputs and an optional init input, and produces
  the content tensor, the list of style tensors and the optional init tensor; it fails
  when a source cannot be decoded.
\<close>

definition load_images ::
  "('src, 'img, 'p, 'perc, 'emb, 'l, 'o, 'kw) collab \<Rightarrow> 'src \<Rightarrow> 'src list \<Rightarrow> 'src option
     \<Rightarrow> error + ('img \<times> 'img list \<times> 'img option)" where
  "load_images c content styles init =
     (case load_image c content of
        Inl e \<Rightarrow> Inl e
      | Inr ci \<Rightarrow>
          (case load_all (load_image c) styles of
             Inl e \<Rightarrow> Inl e
           | Inr sis \<Rightarrow>
               (case init of
                  None \<Rightarrow> Inr (ci, sis, None)
                | Some x \<Rightarrow>
                    (case load_image c x of
                       Inl e \<Rightarrow> Inl e
                     | Inr ii \<Rightarrow> Inr (ci, sis, Some ii)))))"

text \<open>
  Modelled from the spec: \<^verbatim>\<open>load_parameterization\<close> of \<^verbatim>\<open>maua.parameterizations\<close> is
  missing. It resolves a name in a registry and rejects an unknown name with a
  ConfigurationError.
\<close>

definition load_parameterization ::
  "('src, 'img, 'p, 'perc, 'emb, 'l, 'o, 'kw) collab \<Rightarrow> string
     \<Rightarrow> error + (nat \<Rightarrow> nat \<Rightarrow> 'img option \<Rightarrow> 'p)" where
  "load_parameterization c name =
     (case parameterizations c name of None \<Rightarrow> Inl ConfigurationError | Some mk \<Rightarrow> Inr mk)"

text \<open>
  Modelled from the spec: \<^verbatim>\<open>load_perceptor\<close> of \<^verbatim>\<open>maua.perceptors\<close> is missing. It
  resolves a name in a registry and rejects an unknown name with a ConfigurationError.
\<close>

definition load_perceptor ::
  "('src, 'img, 'p, 'perc, 'emb, 'l, 'o, 'kw) collab \<Rightarrow> string
     \<Rightarrow> error + (real \<Rightarrow> real \<Rightarrow> 'kw \<Rightarrow> 'perc)" where
  "load_perceptor c name =
     (case perceptors c name of None \<Rightarrow> Inl ConfigurationError | Some mk \<Rightarrow> Inr mk)"

text \<open>
  Modelled from the spec: \<^verbatim>\<open>load_optimizer\<close> of \<^verbatim>\<open>maua.optimizers\<close> is missing. It is a
  factory taking the name, the learning rate, the extra configuration, the requested
  iterations and the trainable parameters, and returning the adapter and the
  effective iteration count; an unknown name is rejected with a ConfigurationError.
\<close>

definition load_optimizer ::
  "('src, 'img, 'p, 'perc, 'emb, 'l, 'o, 'kw) collab \<Rightarrow> string \<Rightarrow> real \<Rightarrow> 'kw \<Rightarrow> int \<Rightarrow> 'p
     \<Rightarrow> error + ('o \<times> int)" where
  "load_optimizer c name rate kwargs n params =
     (case optimizers c name of
        None \<Rightarrow> Inl ConfigurationError
      | Some mk \<Rightarrow> Inr (mk rate kwargs n params))"

subsection \<open>The closure and the loop\<close>

text \<open>
  \<^verbatim>\<open>closure\<close> (lines 100 to 112): clear the gradients, update the EMA, decode the
  candidate, take the perceptor's loss against the target embeddings, add the weighted
  total variation when \<^verbatim>\<open>tv_weight > 0\<close>, backpropagate, advance the progress bar and
  return the loss.
\<close>

definition closure ::
  "('src, 'img, 'p, 'perc, 'emb, 'l, 'o, 'kw) collab \<Rightarrow> real \<Rightarrow> 'perc \<Rightarrow> 'emb
     \<Rightarrow> ('p, ('img, 'emb, 'l) event) world \<Rightarrow> 'l \<times> ('p, ('img, 'emb, 'l) event) world" where
  "closure c tvw perc target_embeddings s =
     (let p1 = zero_grad c (pastiche s);
          p2 = update_ema c p1;
          img = decode c p2;
          loss0 = get_loss c perc img target_embeddings;
          loss = (if tvw > 0 then loss_add c loss0 (loss_scale c tvw (tv_loss c img)) else loss0);
          p3 = backward c loss p2
      in (loss,
          \<lparr>pastiche = p3,
           trace = trace s @ [EvZeroGrad, EvUpdateEma, EvDecode, EvGetLoss img target_embeddings]
                     @ (if tvw > 0 then [EvTvLoss img] else [])
                     @ [EvBackward loss, EvPbarUpdate]\<rparr>))"

text \<open>One call \<^verbatim>\<open>opt.step(closure)\<close>, given what the adapter does in a step.\<close>

primrec run_step ::
  "(('p, 'ev) world \<Rightarrow> 'l \<times> ('p, 'ev) world) \<Rightarrow> ('l, 'p, 'o) step_prog
     \<Rightarrow> ('p, 'ev) world \<Rightarrow> 'o \<times> ('p, 'ev) world" where
  "run_step cl (Finish ost) = (\<lambda>s. (ost, s))"
| "run_step cl (Eval k) = (\<lambda>s. case cl s of (l, s') \<Rightarrow> run_step cl (k l) s')"
| "run_step cl (ReadParams k) = (\<lambda>s. run_step cl (k (pastiche s)) s)"
| "run_step cl (WriteParams p k) = (\<lambda>s. run_step cl k (s\<lparr>pastiche := p\<rparr>))"

text \<open>The loop \<^verbatim>\<open>for _ in range(niter): opt.step(closure)\<close> (lines 114 and 115).\<close>

fun run_steps ::
  "('src, 'img, 'p, 'perc, 'emb, 'l, 'o, 'kw) collab
     \<Rightarrow> (('p, ('img, 'emb, 'l) event) world \<Rightarrow> 'l \<times> ('p, ('img, 'emb, 'l) event) world)
     \<Rightarrow> nat \<Rightarrow> 'o \<Rightarrow> ('p, ('img, 'emb, 'l) event) world
     \<Rightarrow> 'o \<times> ('p, ('img, 'emb, 'l) event) world" where
  "run_steps c cl 0 ost s = (ost, s)"
| "run_steps c cl (Suc n) ost s =
     (case run_step cl (opt_step c ost) (s\<lparr>trace := trace s @ [EvStep]\<rparr>) of
        (ost', s') \<Rightarrow> run_steps c cl n ost' s')"

subsection \<open>\<^verbatim>\<open>transfer\<close>\<close>

text \<open>
  The binding of \<^verbatim>\<open>init_tensor\<close> (lines 76 to 81). The chain has no \<^verbatim>\<open>else\<close>: the
  outer \<open>None\<close> is the variable left unbound, \<open>Some seed\<close> is the variable bound to
  \<open>seed\<close> (which is itself \<^verbatim>\<open>None\<close> for a random start).
\<close>

definition bind_init_tensor :: "'img option \<Rightarrow> string \<Rightarrow> 'img \<Rightarrow> 'img option option" where
  "bind_init_tensor init_loaded ity content =
     (if init_loaded \<noteq> None then Some init_loaded
      else if ity = ''content'' then Some (Some content)
      else if ity = ''random'' then Some None
      else None)"

text \<open>
  \<^verbatim>\<open>transfer\<close> is translated in three stages, each returning the calls it made; the
  stages are chained in \<open>transfer\<close> below exactly as the statements follow each other in
  the source. The first stage is lines 70 to 74: load the images, move them to the
  device, resample them, match the histogram of the content image.
\<close>

definition preprocess ::
  "('src, 'img, 'p, 'perc, 'emb, 'l, 'o, 'kw) collab \<Rightarrow> ('src, 'kw) transfer_args
     \<Rightarrow> (error + ('img \<times> 'img list \<times> 'img option)) \<times> ('img, 'emb, 'l) event list" where
  "preprocess c a =
     (case load_images c (content_img a) (style_imgs a) (init_img a) of
        Inl e \<Rightarrow> (Inl e, [EvLoadImages])
      | Inr (content0, styles0, init_loaded) \<Rightarrow>
          (let content1 = resample c (img_to c content0 (device a)) (size_px a);
               styles = map (\<lambda>im. resample c (img_to c im (device a)) (size_px a * style_scale a))
                          styles0;
               content = match_histogram c content1 styles (match_hist a)
           in (Inr (content, styles, init_loaded),
               [EvLoadImages, EvToDevice, EvResample (size_px a)]
                 @ concat (map (\<lambda>im. [EvToDevice, EvResample (size_px a * style_scale a)])
                             styles0)
                 @ [EvMatchHistogram])))"

text \<open>
  Lines 76 to 94: bind \<^verbatim>\<open>init_tensor\<close>, build the parameterization and the perceptor,
  compute the target embeddings, release the images. In line 83 Python evaluates the
  callee \<^verbatim>\<open>load_parameterization(parameterization)\<close> before the arguments, so the
  registry is asked before \<^verbatim>\<open>init_tensor\<close> is read.
\<close>

definition construct ::
  "('src, 'img, 'p, 'perc, 'emb, 'l, 'o, 'kw) collab \<Rightarrow> ('src, 'kw) transfer_args
     \<Rightarrow> 'img \<Rightarrow> 'img list \<Rightarrow> 'img option
     \<Rightarrow> (error + ('p \<times> 'perc \<times> 'emb)) \<times> ('img, 'emb, 'l) event list" where
  "construct c a content styles init_loaded =
     (let init_tensor = bind_init_tensor init_loaded (init_type a) content;
          tr2 = [EvLoadParameterization (parameterization a)]
      in case load_parameterization c (parameterization a) of
           Inl e \<Rightarrow> (Inl e, tr2)
         | Inr mk_param \<Rightarrow>
             (case init_tensor of
                None \<Rightarrow> (Inl UnboundLocalError, tr2)
              | Some seed \<Rightarrow>
                  (let h = img_height c content;
                       w = img_width c content;
                       p0 = param_to c (mk_param h w seed) (device a);
                       tr3 = tr2 @ [EvConstructParameterization h w seed, EvToDevice,
                                    EvLoadPerceptor (perceptor a)]
                   in case load_perceptor c (perceptor a) of
                        Inl e \<Rightarrow> (Inl e, tr3)
                      | Inr mk_perc \<Rightarrow>
                          (let perc = perc_to c
                                        (mk_perc (content_weight a) (style_weight a)
                                           (perceptor_kwargs a))
                                        (device a);
                               target_embeddings = get_target_embeddings c perc content styles
                           in (Inr (p0, perc, target_embeddings),
                               tr3 @ [EvConstructPerceptor, EvToDevice, EvGetTargetEmbeddings,
                                      EvGcCollect, EvEmptyCache])))))"

text \<open>
  Lines 96 to 115: build the optimizer adapter and run the loop, starting from the
  trace \<open>tr\<close> of the calls made so far. The loop runs \<^verbatim>\<open>range(niter)\<close>, which is empty
  for a negative count. The result is the state after the last step.
\<close>

definition optimize ::
  "('src, 'img, 'p, 'perc, 'emb, 'l, 'o, 'kw) collab \<Rightarrow> ('src, 'kw) transfer_args
     \<Rightarrow> 'p \<Rightarrow> 'perc \<Rightarrow> 'emb \<Rightarrow> ('img, 'emb, 'l) event list
     \<Rightarrow> (error \<times> ('img, 'emb, 'l) event list) + ('p, ('img, 'emb, 'l) event) world" where
  "optimize c a p0 perc target_embeddings tr =
     (case load_optimizer c (optimizer a) (lr a) (optimizer_kwargs a) (n_iters a) p0 of
        Inl e \<Rightarrow> Inl (e, tr @ [EvLoadOptimizer (optimizer a)])
      | Inr (opt, niter) \<Rightarrow>
          Inr (snd (run_steps c (closure c (tv_weight a) perc target_embeddings) (nat niter) opt
                      \<lparr>pastiche = p0, trace = tr @ [EvLoadOptimizer (optimizer a)]\<rparr>)))"

text \<open>
  Lines 70 to 115 as a whole: the three stages in the order of the source. The result
  is the state after the loop, or the error that ended the call with the trace of the
  calls made up to there.
\<close>

definition transfer_body ::
  "('src, 'img, 'p, 'perc, 'emb, 'l, 'o, 'kw) collab \<Rightarrow> ('src, 'kw) transfer_args
     \<Rightarrow> (error \<times> ('img, 'emb, 'l) event list) + ('p, ('img, 'emb, 'l) event) world" where
  "transfer_body c a =
     (case preprocess c a of
        (Inl e, tr1) \<Rightarrow> Inl (e, tr1)
      | (Inr (content, styles, init_loaded), tr1) \<Rightarrow>
          (case construct c a content styles init_loaded of
             (Inl e, tr2) \<Rightarrow> Inl (e, tr1 @ tr2)
           | (Inr (p0, perc, target_embeddings), tr2) \<Rightarrow>
               optimize c a p0 perc target_embeddings (tr1 @ tr2)))"

text \<open>
  \<^verbatim>\<open>transfer\<close> (lines 70 to 117): the body, then
  \<^verbatim>\<open>return pastiche.decode_average()\<close>. The result is the returned image or the error
  that ended the call, together with the trace of all calls made.
\<close>

definition transfer ::
  "('src, 'img, 'p, 'perc, 'emb, 'l, 'o, 'kw) collab \<Rightarrow> ('src, 'kw) transfer_args
     \<Rightarrow> (error + 'img) \<times> ('img, 'emb, 'l) event list" where
  "transfer c a =
     (case transfer_body c a of
        Inl (e, tr) \<Rightarrow> (Inl e, tr)
      | Inr s \<Rightarrow> (Inr (decode_average c (pastiche s)), trace s @ [EvDecodeAverage]))"

subsection \<open>A parameterization with an EMA accumulator, and adapters\<close>

text \<open>
  Modelled from the spec: the Parameterization classes of \<^verbatim>\<open>maua.parameterizations\<close> are
  missing. A parameterization owns the optimizable latent parameters and an internal
  exponential-moving-average accumulator; calling it decodes the current candidate image
  from the latent state, \<^verbatim>\<open>update_ema()\<close> mutates the running average from the current
  state, and \<^verbatim>\<open>decode_average()\<close> returns the EMA-smoothed image. The mapping \<open>render\<close>
  from a latent to an image and the averaging \<open>avg\<close> are left open.
\<close>

record 'lat ema_param =
  latent :: 'lat
  average :: 'lat

definition ema_update :: "('lat \<Rightarrow> 'lat \<Rightarrow> 'lat) \<Rightarrow> 'lat ema_param \<Rightarrow> 'lat ema_param" where
  "ema_update avg p = p\<lparr>average := avg (average p) (latent p)\<rparr>"

definition ema_decode :: "('lat \<Rightarrow> 'img) \<Rightarrow> 'lat ema_param \<Rightarrow> 'img" where
  "ema_decode render p = render (latent p)"

definition ema_decode_average :: "('lat \<Rightarrow> 'img) \<Rightarrow> 'lat ema_param \<Rightarrow> 'img" where
  "ema_decode_average render p = render (average p)"


text \<open>
  An adapter whose step evaluates the closure once and then moves the latent by the
  loss it read.
\<close>

definition descend :: "'o \<Rightarrow> (int, int ema_param, 'o) step_prog" where
  "descend ost =
     Eval (\<lambda>l. ReadParams (\<lambda>p. WriteParams (p\<lparr>latent := latent p + l\<rparr>) (Finish ost)))"

subsection \<open>A small concrete instance\<close>

text \<open>
  One-pixel images are integers, a source is an integer that fails to load when it is
  negative, the registries know the names \<^verbatim>\<open>rgb\<close>, \<^verbatim>\<open>vgg\<close>, \<^verbatim>\<open>sgd\<close> and \<^verbatim>\<open>lbfgs\<close>;
  \<^verbatim>\<open>lbfgs\<close> halves the requested iteration count. The mapping from latent to image and
  the adapter's step are parameters of the instance.
\<close>

definition toy ::
  "(int \<Rightarrow> int) \<Rightarrow> (nat \<Rightarrow> (int, int ema_param, nat) step_prog)
     \<Rightarrow> (int, int, int ema_param, unit, int, int, nat, unit) collab" where
  "toy render stp =
     \<lparr>load_image = (\<lambda>n. if n < 0 then Inl InvalidInput else Inr n),
      img_to = (\<lambda>i d. i),
      resample = (\<lambda>i r. i),
      match_histogram = (\<lambda>i ss m. i),
      img_height = (\<lambda>i. 1),
      img_width = (\<lambda>i. 1),
      parameterizations =
        (\<lambda>n. if n = ''rgb''
              then Some (\<lambda>h w seed.
                     (case seed of
                        None \<Rightarrow> \<lparr>latent = 0, average = 0\<rparr>
                      | Some i \<Rightarrow> \<lparr>latent = i, average = i\<rparr>))
              else None),
      param_to = (\<lambda>p d. p),
      update_ema = ema_update (\<lambda>e x. (e + x) div 2),
      decode = ema_decode render,
      decode_average = ema_decode_average render,
      perceptors = (\<lambda>n. if n = ''vgg'' then Some (\<lambda>cw sw kw. ()) else None),
      perc_to = (\<lambda>q d. q),
      get_target_embeddings = (\<lambda>q content styles. content + 10),
      get_loss = (\<lambda>q img emb. emb - img),
      tv_loss = (\<lambda>img. 1),
      loss_add = (\<lambda>x y. x + y),
      loss_scale = (\<lambda>r l. \<lfloor>r\<rfloor> * l),
      backward = (\<lambda>l p. p),
      optimizers =
        (\<lambda>n. if n = ''sgd'' then Some (\<lambda>rate kw k p. (1, k))
              else if n = ''lbfgs'' then Some (\<lambda>rate kw k p. (2, k div 2))
              else None),
      zero_grad = (\<lambda>p. p),
      opt_step = stp\<rparr>"

definition toy_args :: "(int, unit) transfer_args" where
  "toy_args =
     \<lparr>content_img = 5, style_imgs = [7], init_img = None, init_type = ''content'',
      match_hist = HistMode ''avg'', size_px = 512, parameterization = ''rgb'',
      perceptor = ''vgg'', perceptor_kwargs = (), optimizer = ''lbfgs'', lr = 1 / 2,
      optimizer_kwargs = (), n_iters = 4, content_weight = 1, style_weight = 50,
      tv_weight = 100, style_scale = 1, device = ''cpu''\<rparr>"

text \<open>A mapping from latent to image that clamps, as a pixel range does.\<close>

definition clamp8 :: "int \<Rightarrow> int" where
  "clamp8 x = min 8 (max 0 x)"

section \<open>Video upscaling: \<^verbatim>\<open>maua/super/video/frame_by_frame.py\<close>\<close>

text \<open>
  A decoded frame has the shape \<^verbatim>\<open>(height, width, channels)\<close>; a video that
  \<^verbatim>\<open>VideoReader\<close> opened has an average frame rate and its frames.
\<close>

record 'px frame =
  frame_height :: nat
  frame_width :: nat
  pixels :: 'px

record 'px video =
  avg_fps :: real
  frames :: "'px frame list"

datatype 't up_event =
    EvVideoReader string
  | EvReadFrame nat
  | EvOpenWriter string nat nat real
  | EvWrite 't
  | EvCloseWriter string
  | EvPrint string

text \<open>
  \<^verbatim>\<open>upscale_images\<close> of \<^verbatim>\<open>maua.super.image\<close> is not among the source files. It receives
  the generator of frames and is itself iterated by the loop of line 23, so it is a
  parameter of this shape: it stops, or yields an upscaled frame and goes on, or asks
  the generator for its next frame (\<open>None\<close> once the generator is exhausted) and goes
  on.
\<close>

datatype 't gen =
    Stop
  | Yield 't "'t gen"
  | Pull "'t option \<Rightarrow> 't gen"

text \<open>
  The collaborators of the upscaler: \<^verbatim>\<open>VideoReader\<close> applied to the path of an input
  (line 16), the conversion of a decoded frame to a tensor (line 22),
  \<^verbatim>\<open>upscale_images\<close> for a model name and a device, \<^verbatim>\<open>Path(...).stem\<close>, and
  \<^verbatim>\<open>VideoReader\<close> applied to the file that the writer has just produced (line 26): what
  it finds depends on the declared width and height, the frame rate and the frames
  that were written, and it fails when that file cannot be opened.
\<close>

record ('px, 't) up_collab =
  open_video :: "string \<Rightarrow> error + 'px video"
  to_tensor :: "'px frame \<Rightarrow> 't"
  upscale_images :: "string \<Rightarrow> string \<Rightarrow> 't gen"
  path_stem :: "string \<Rightarrow> string"
  read_written :: "nat \<Rightarrow> nat \<Rightarrow> real \<Rightarrow> 't list \<Rightarrow> error + 'px video"

text \<open>
  The state: the paths for which \<^verbatim>\<open>os.path.exists\<close> holds, and the trace of the calls
  made.
\<close>

record 't up_world =
  files :: "string set"
  calls :: "'t up_event list"

text \<open>The parsed arguments of the command line (lines 40 to 46).\<close>

record up_args =
  video_files :: "string list"
  model_name :: string
  device_name :: string
  out_dir :: string

text \<open>The path of the output, built alike in lines 20 and 32.\<close>

definition out_path :: "('px, 't) up_collab \<Rightarrow> string \<Rightarrow> string \<Rightarrow> string \<Rightarrow> string" where
  "out_path c dir video_file model = dir @ ''/'' @ path_stem c video_file @ ''_'' @ model @ ''.mp4''"

text \<open>
  The loop of lines 23 and 24 over \<^verbatim>\<open>upscale_images(frames, model_name, device)\<close>, where
  \<^verbatim>\<open>frames\<close> is the generator of line 22: \<open>i\<close> is the index that the generator reads
  next, \<open>written\<close> are the frames that the writer \<^verbatim>\<open>video\<close> holds so far. A yielded
  frame is written to the video; a request is answered by reading the frame \<open>i\<close> of
  the source, or by \<open>None\<close> when \<open>i\<close> has reached the length of the video.
\<close>

primrec write_frames ::
  "('px, 't) up_collab \<Rightarrow> 'px frame list \<Rightarrow> 't gen \<Rightarrow> nat \<Rightarrow> 't list \<Rightarrow> 't up_world
     \<Rightarrow> 't list \<times> 't up_world" where
  "write_frames c fs Stop = (\<lambda>i written w. (written, w))"
| "write_frames c fs (Yield t g) =
     (\<lambda>i written w.
        write_frames c fs g i (written @ [t]) (w\<lparr>calls := calls w @ [EvWrite t]\<rparr>))"
| "write_frames c fs (Pull k) =
     (\<lambda>i written w.
        if i < length fs
        then write_frames c fs (k (Some (to_tensor c (fs ! i)))) (Suc i) written
               (w\<lparr>calls := calls w @ [EvReadFrame i]\<rparr>)
        else write_frames c fs (k None) i written w)"

text \<open>
  \<^verbatim>\<open>upscale\<close> (lines 15 to 26). \<^verbatim>\<open>VideoReader\<close> may fail to open the input, \<^verbatim>\<open>vr[0]\<close>
  fails on a video without frames, and \<^verbatim>\<open>VideoReader(out_file)\<close> in line 26 may fail
  to open what was written; otherwise the reader of line 26 is returned. Modelled from
  the spec: \<^verbatim>\<open>VideoWriter\<close> of \<^verbatim>\<open>maua.ops.video\<close> is missing; it creates the output video
  file at the given path, with the declared output size and frame rate.
\<close>

definition upscale ::
  "('px, 't) up_collab \<Rightarrow> string \<Rightarrow> string \<Rightarrow> string \<Rightarrow> string \<Rightarrow> 't up_world
     \<Rightarrow> (error + 'px video) \<times> 't up_world" where
  "upscale c video_file model dev dir w =
     (let w1 = w\<lparr>calls := calls w @ [EvVideoReader video_file]\<rparr>
      in case open_video c video_file of
           Inl e \<Rightarrow> (Inl e, w1)
         | Inr vr \<Rightarrow>
             (let fps = avg_fps vr;
                  w1' = w1\<lparr>calls := calls w1 @ [EvReadFrame 0]\<rparr>
              in case frames vr of
                   [] \<Rightarrow> (Inl IndexError, w1')
                 | f0 # _ \<Rightarrow>
                     (let h = frame_height f0;
                          wd = frame_width f0;
                          out_file = out_path c dir video_file model;
                          w2 = w1'\<lparr>files := insert out_file (files w1'),
                                   calls := calls w1' @
                                     [EvOpenWriter out_file (4 * wd) (4 * h) fps]\<rparr>
                      in case write_frames c (frames vr) (upscale_images c model dev) 0 [] w2 of
                           (written, w3) \<Rightarrow>
                             (read_written c (4 * wd) (4 * h) fps written,
                              w3\<lparr>calls := calls w3 @ [EvCloseWriter out_file,
                                                      EvVideoReader out_file]\<rparr>))))"

text \<open>
  \<^verbatim>\<open>main\<close> (lines 29 to 37): the loop over \<^verbatim>\<open>args.video_files\<close>. An exception of
  \<^verbatim>\<open>upscale\<close> ends the loop.
\<close>

fun main_loop ::
  "('px, 't) up_collab \<Rightarrow> up_args \<Rightarrow> string list \<Rightarrow> 't up_world \<Rightarrow> (error + unit) \<times> 't up_world" where
  "main_loop c args [] w = (Inr (), w)"
| "main_loop c args (video_file # rest) w =
     (let out_file = out_path c (out_dir args) video_file (model_name args)
      in if out_file \<in> files w
         then main_loop c args rest
                (w\<lparr>calls := calls w @
                     [EvPrint (''Skipping '' @ path_stem c video_file @ '', output ''
                               @ path_stem c out_file @ '' already exists!'')]\<rparr>)
         else (case upscale c video_file (model_name args) (device_name args) (out_dir args) w of
                 (Inl e, w') \<Rightarrow> (Inl e, w')
               | (Inr u, w') \<Rightarrow> main_loop c args rest w'))"

definition main :: "('px, 't) up_collab \<Rightarrow> up_args \<Rightarrow> 't up_world \<Rightarrow> (error + unit) \<times> 't up_world" where
  "main c args w = main_loop c args (video_files args) w"

subsection \<open>A small concrete instance\<close>

text \<open>
  Pixels and tensors are integers; the only video is \<^verbatim>\<open>in/clip.mp4\<close>, with three frames
  of 2 by 3 pixels; the stem of a path is what lies between its last slash and its
  last dot; upscaling asks for one frame at a time and yields ten times its value; a
  written file can be opened again unless no frame was written.
\<close>

definition toy_stem :: "string \<Rightarrow> string" where
  "toy_stem path =
     (let name = rev (takeWhile (\<lambda>ch. ch \<noteq> CHR ''/'') (rev path))
      in if CHR ''.'' \<in> set name
         then rev (tl (dropWhile (\<lambda>ch. ch \<noteq> CHR ''.'') (rev name)))
         else name)"

fun each_frame :: "nat \<Rightarrow> int gen" where
  "each_frame 0 = Stop"
| "each_frame (Suc n) = Pull (\<lambda>x. case x of None \<Rightarrow> Stop | Some t \<Rightarrow> Yield (10 * t) (each_frame n))"

definition toy_up :: "(int, int) up_collab" where
  "toy_up =
     \<lparr>open_video =
        (\<lambda>path. if path = ''in/clip.mp4''
                then Inr \<lparr>avg_fps = 24,
                          frames = [\<lparr>frame_height = 2, frame_width = 3, pixels = 1\<rparr>,
                                    \<lparr>frame_height = 2, frame_width = 3, pixels = 2\<rparr>,
                                    \<lparr>frame_height = 2, frame_width = 3, pixels = 3\<rparr>]\<rparr>
                else Inl InvalidInput),
      to_tensor = pixels,
      upscale_images = (\<lambda>model dev. each_frame 5),
      path_stem = toy_stem,
      read_written =
        (\<lambda>wd h fps ts.
           if ts = [] then Inl InvalidInput
           else Inr \<lparr>avg_fps = fps,
                     frames = map (\<lambda>t. \<lparr>frame_height = h, frame_width = wd, pixels = t\<rparr>) ts\<rparr>)\<rparr>"

text \<open>What line 26 reads back after the three frames of the clip were upscaled.\<close>

definition toy_written :: "int video" where
  "toy_written =
     \<lparr>avg_fps = 24,
      frames = [\<lparr>frame_height = 8, frame_width = 12, pixels = 10\<rparr>,
                \<lparr>frame_height = 8, frame_width = 12, pixels = 20\<rparr>,
                \<lparr>frame_height = 8, frame_width = 12, pixels = 30\<rparr>]\<rparr>"

definition toy_up_args :: up_args where
  "toy_up_args =
     \<lparr>video_files = [''in/clip.mp4''], model_name = ''esrgan'', device_name = ''cpu'',
      out_dir = ''output''\<rparr>"

section \<open>Reading traces\<close>


text \<open>The constructions of a parameterization in a trace.\<close>

fun is_construct :: "('img, 'emb, 'l) event \<Rightarrow> bool" where
  "is_construct (EvConstructParameterization h w seed) = True"
| "is_construct ev = False"

text \<open>The indices of the source frames read in a trace of the upscaler, in order.\<close>

fun frame_reads :: "'t up_event list \<Rightarrow> nat list" where
  "frame_reads [] = []"
| "frame_reads (EvReadFrame i # evs) = i # frame_reads evs"
| "frame_reads (ev # evs) = frame_reads evs"

text \<open>The frames written in a trace of the upscaler, in order.\<close>

fun frame_writes :: "'t up_event list \<Rightarrow> 't list" where
  "frame_writes [] = []"
| "frame_writes (EvWrite t # evs) = t # frame_writes evs"
| "frame_writes (ev # evs) = frame_writes evs"

text \<open>
  What a consumer yields when the frames it asks for are taken from the list \<open>xs\<close>, one
  after the other, and how many of them it asks for before it stops.
\<close>

primrec outputs :: "'t gen \<Rightarrow> 't list \<Rightarrow> 't list" where
  "outputs Stop = (\<lambda>xs. [])"
| "outputs (Yield t g) = (\<lambda>xs. t # outputs g xs)"
| "outputs (Pull k) =
     (\<lambda>xs. case xs of [] \<Rightarrow> outputs (k None) [] | x # rest \<Rightarrow> outputs (k (Some x)) rest)"

primrec consumed :: "'t gen \<Rightarrow> 't list \<Rightarrow> nat" where
  "consumed Stop = (\<lambda>xs. 0)"
| "consumed (Yield t g) = (\<lambda>xs. consumed g xs)"
| "consumed (Pull k) =
     (\<lambda>xs. case xs of [] \<Rightarrow> consumed (k None) [] | x # rest \<Rightarrow> Suc (consumed (k (Some x)) rest))"

text \<open>The events of reading a source frame and of writing an output frame.\<close>

fun is_frame_event :: "'t up_event \<Rightarrow> bool" where
  "is_frame_event (EvReadFrame i) = True"
| "is_frame_event (EvWrite t) = True"
| "is_frame_event ev = False"


section \<open>Properties of the style transfer\<close>

subsection \<open>The trace of the loop\<close>









lemma transfer_ok:
  assumes "preprocess c a = (Inr (content, styles, il), tr1)"
    and "construct c a content styles il = (Inr (p0, perc, emb), tr2)"
    and "load_optimizer c (optimizer a) (lr a) (optimizer_kwargs a) (n_iters a) p0
           = Inr (opt, niter)"
  shows "transfer_body c a =
           Inr (snd (run_steps c (closure c (tv_weight a) perc emb) (nat niter) opt
                  \<lparr>pastiche = p0, trace = tr1 @ tr2 @ [EvLoadOptimizer (optimizer a)]\<rparr>))"
  by (simp add: transfer_body_def optimize_def assms)


subsection \<open>The concrete instance, stage by stage\<close>

lemma toy_preprocess:
  "preprocess (toy r stp) toy_args =
     (Inr (5, [7], None),
      [EvLoadImages, EvToDevice, EvResample 512, EvToDevice, EvResample 512, EvMatchHistogram])"
  by (simp add: preprocess_def load_images_def toy_def toy_args_def)

lemma toy_construct:
  "construct (toy r stp) toy_args 5 [7] None =
     (Inr (\<lparr>latent = 5, average = 5\<rparr>, (), 15),
      [EvLoadParameterization ''rgb'', EvConstructParameterization 1 1 (Some 5), EvToDevice,
       EvLoadPerceptor ''vgg'', EvConstructPerceptor, EvToDevice, EvGetTargetEmbeddings,
       EvGcCollect, EvEmptyCache])"
  by (simp add: construct_def bind_init_tensor_def load_parameterization_def
      load_perceptor_def toy_def toy_args_def)

lemma toy_load_optimizer:
  "load_optimizer (toy r stp) (optimizer toy_args) (lr toy_args) (optimizer_kwargs toy_args)
     (n_iters toy_args) p = Inr (2, 2)"
  by (simp add: load_optimizer_def toy_def toy_args_def)

subsection \<open>The number of optimizer steps\<close>



subsection \<open>The loss of one closure invocation\<close>

text \<open>
  Claim C7. One invocation of the closure returns the perceptor's loss of the decoded
  candidate against the target embeddings, plus \<^verbatim>\<open>tv_weight\<close> times the total
  variation of the candidate when \<^verbatim>\<open>tv_weight > 0\<close>, and total variation is then
  computed once; when \<^verbatim>\<open>tv_weight <= 0\<close> the loss is the perceptor's loss alone and
  total variation is not computed.
\<close>

theorem closure_total_loss:
  "(0 < tvw \<longrightarrow>
      fst (closure c tvw perc emb s) =
        loss_add c (get_loss c perc (decode c (update_ema c (zero_grad c (pastiche s)))) emb)
          (loss_scale c tvw (tv_loss c (decode c (update_ema c (zero_grad c (pastiche s))))))
      \<and> trace (snd (closure c tvw perc emb s)) =
          trace s @ [EvZeroGrad, EvUpdateEma, EvDecode,
                     EvGetLoss (decode c (update_ema c (zero_grad c (pastiche s)))) emb,
                     EvTvLoss (decode c (update_ema c (zero_grad c (pastiche s)))),
                     EvBackward (fst (closure c tvw perc emb s)), EvPbarUpdate])
   \<and> (tvw \<le> 0 \<longrightarrow>
      fst (closure c tvw perc emb s) =
        get_loss c perc (decode c (update_ema c (zero_grad c (pastiche s)))) emb
      \<and> trace (snd (closure c tvw perc emb s)) =
          trace s @ [EvZeroGrad, EvUpdateEma, EvDecode,
                     EvGetLoss (decode c (update_ema c (zero_grad c (pastiche s)))) emb,
                     EvBackward (fst (closure c tvw perc emb s)), EvPbarUpdate])"
  by (simp add: closure_def Let_def)

theorem closure_total_loss_witness:
  "fst (closure (toy id descend) 100 () 15 \<lparr>pastiche = \<lparr>latent = 5, average = 5\<rparr>, trace = []\<rparr>)
     = 10 + 100 * 1
   \<and> fst (closure (toy id descend) 0 () 15 \<lparr>pastiche = \<lparr>latent = 5, average = 5\<rparr>, trace = []\<rparr>)
     = 10
   \<and> trace (snd (closure (toy id descend) 0 () 15
                   \<lparr>pastiche = \<lparr>latent = 5, average = 5\<rparr>, trace = []\<rparr>))
     = [EvZeroGrad, EvUpdateEma, EvDecode, EvGetLoss 5 15, EvBackward 10, EvPbarUpdate]"
  using closure_total_loss [of 100 "toy id descend" "()" 15
          "\<lparr>pastiche = \<lparr>latent = 5, average = 5\<rparr>, trace = []\<rparr>"]
        closure_total_loss [of 0 "toy id descend" "()" 15
          "\<lparr>pastiche = \<lparr>latent = 5, average = 5\<rparr>, trace = []\<rparr>"]
  by (simp add: toy_def ema_update_def ema_decode_def)

subsection \<open>The target embeddings\<close>



subsection \<open>EMA updates and progress reports\<close>






subsection \<open>The returned image\<close>

lemma toy_tv_weight: "tv_weight toy_args = 100"
  by (simp add: toy_args_def)

lemma toy_closure:
  "closure (toy r stp) 100 () 15 \<lparr>pastiche = \<lparr>latent = x, average = e\<rparr>, trace = tr\<rparr> =
     (15 - r x + 100,
      \<lparr>pastiche = \<lparr>latent = x, average = (e + x) div 2\<rparr>,
       trace = tr @ [EvZeroGrad, EvUpdateEma, EvDecode, EvGetLoss (r x) 15, EvTvLoss (r x),
                     EvBackward (15 - r x + 100), EvPbarUpdate]\<rparr>)"
  by (simp add: closure_def Let_def toy_def ema_update_def ema_decode_def)

lemma toy_descend_step:
  "run_step (closure (toy r descend) 100 () 15) (opt_step (toy r descend) ost)
     \<lparr>pastiche = \<lparr>latent = x, average = e\<rparr>, trace = tr\<rparr> =
     (ost,
      \<lparr>pastiche = \<lparr>latent = x + (15 - r x + 100), average = (e + x) div 2\<rparr>,
       trace = tr @ [EvZeroGrad, EvUpdateEma, EvDecode, EvGetLoss (r x) 15, EvTvLoss (r x),
                     EvBackward (15 - r x + 100), EvPbarUpdate]\<rparr>)"
proof -
  have "opt_step (toy r descend) ost = descend ost"
    by (simp add: toy_def)
  then show ?thesis
    by (simp add: descend_def toy_closure)
qed

lemma toy_descend_final:
  "pastiche (snd (run_steps (toy r descend) (closure (toy r descend) 100 () 15) 2 ost
                    \<lparr>pastiche = \<lparr>latent = 5, average = 5\<rparr>, trace = tr\<rparr>))
     = \<lparr>latent = 5 + (115 - r 5) + (115 - r (5 + (115 - r 5))),
        average = (5 + (5 + (115 - r 5))) div 2\<rparr>"
  by (simp add: numeral_2_eq_2 toy_descend_step)

lemma toy_body:
  "transfer_body (toy r stp) toy_args =
     Inr (snd (run_steps (toy r stp) (closure (toy r stp) 100 () 15) 2 2
            \<lparr>pastiche = \<lparr>latent = 5, average = 5\<rparr>,
             trace = [EvLoadImages, EvToDevice, EvResample 512, EvToDevice, EvResample 512,
                      EvMatchHistogram] @
                     [EvLoadParameterization ''rgb'', EvConstructParameterization 1 1 (Some 5),
                      EvToDevice, EvLoadPerceptor ''vgg'', EvConstructPerceptor, EvToDevice,
                      EvGetTargetEmbeddings, EvGcCollect, EvEmptyCache] @
                     [EvLoadOptimizer (optimizer toy_args)]\<rparr>))"
  using transfer_ok [OF toy_preprocess toy_construct toy_load_optimizer, of r stp]
  by (simp add: toy_tv_weight)

text \<open>
  Claim C5, as stated, fails where the parameterization's mapping from latent to
  image is not injective. With a mapping that clamps to a pixel range, a run of two
  steps ends with the latent at 222 and the EMA accumulator at 60, and the image
  returned, the decoded average, equals the decoded final candidate: both are 8.
\<close>

theorem ema_decode_not_always_distinct:
  "map_sum fst pastiche (transfer_body (toy clamp8 descend) toy_args)
     = Inr \<lparr>latent = 222, average = 60\<rparr>
   \<and> fst (transfer (toy clamp8 descend) toy_args) = Inr 8
   \<and> decode (toy clamp8 descend) \<lparr>latent = 222, average = 60\<rparr> = 8"
  by (simp add: transfer_def toy_body toy_descend_final)
    (simp add: clamp8_def toy_def ema_decode_def ema_decode_average_def)

text \<open>
  Claim C5, amended. A run of \<^verbatim>\<open>transfer\<close> that completes returns
  \<^verbatim>\<open>decode_average()\<close> of the final parameterization state, not the decoded final
  candidate; for a parameterization that decodes its latent and its EMA accumulator
  through one injective mapping, the two images differ whenever the accumulator
  differs from the final latent.
\<close>

theorem returns_ema_decode:
  assumes "transfer_body c a = Inr s"
    and "decode c = ema_decode render"
    and "decode_average c = ema_decode_average render"
    and "inj render"
  shows "fst (transfer c a) = Inr (decode_average c (pastiche s))
       \<and> (average (pastiche s) \<noteq> latent (pastiche s)
            \<longrightarrow> fst (transfer c a) \<noteq> Inr (decode c (pastiche s)))"
  using assms by (auto simp: transfer_def ema_decode_def ema_decode_average_def dest: injD)

theorem returns_ema_decode_witness:
  "map_sum fst pastiche (transfer_body (toy id descend) toy_args)
     = Inr \<lparr>latent = 115, average = 60\<rparr>
   \<and> fst (transfer (toy id descend) toy_args) = Inr 60
   \<and> decode (toy id descend) \<lparr>latent = 115, average = 60\<rparr> = 115"
proof -
  let ?s = "snd (run_steps (toy id descend) (closure (toy id descend) 100 () 15) 2 2
            \<lparr>pastiche = \<lparr>latent = 5, average = 5\<rparr>,
             trace = [EvLoadImages, EvToDevice, EvResample 512, EvToDevice, EvResample 512,
                      EvMatchHistogram] @
                     [EvLoadParameterization ''rgb'', EvConstructParameterization 1 1 (Some 5),
                      EvToDevice, EvLoadPerceptor ''vgg'', EvConstructPerceptor, EvToDevice,
                      EvGetTargetEmbeddings, EvGcCollect, EvEmptyCache] @
                     [EvLoadOptimizer (optimizer toy_args)]\<rparr>)"
  have b: "transfer_body (toy id descend) toy_args = Inr ?s"
    by (rule toy_body)
  have d: "decode (toy id descend) = ema_decode id"
    "decode_average (toy id descend) = ema_decode_average id"
    by (simp_all add: toy_def)
  have p: "pastiche ?s = \<lparr>latent = 115, average = 60\<rparr>"
    by (simp add: toy_descend_final)
  from returns_ema_decode [OF b d inj_on_id] p
  show ?thesis
    by (simp add: b) (simp add: d ema_decode_def ema_decode_average_def)
qed

subsection \<open>The initial seed\<close>

lemma load_images_init:
  assumes "load_images c x ys init = Inr (c0, ss0, il)"
  shows "init = None \<Longrightarrow> il = None"
    and "init = Some i \<Longrightarrow> load_image c i = Inr ii \<Longrightarrow> il = Some ii"
    and "init = Some i \<Longrightarrow> \<exists>ii. load_image c i = Inr ii"
  using assms
  by (auto simp: load_images_def split: sum.splits option.splits)

lemma preprocess_ok:
  assumes "load_images c (content_img a) (style_imgs a) (init_img a) = Inr (c0, ss0, il)"
  shows "preprocess c a =
     (Inr (match_histogram c (resample c (img_to c c0 (device a)) (size_px a))
             (map (\<lambda>im. resample c (img_to c im (device a)) (size_px a * style_scale a)) ss0)
             (match_hist a),
           map (\<lambda>im. resample c (img_to c im (device a)) (size_px a * style_scale a)) ss0,
           il),
      [EvLoadImages, EvToDevice, EvResample (size_px a)]
        @ concat (map (\<lambda>im. [EvToDevice, EvResample (size_px a * style_scale a)]) ss0)
        @ [EvMatchHistogram])"
  by (simp add: preprocess_def assms Let_def)






lemma toy_rgb:
  "parameterizations (toy r stp) ''rgb'' =
     Some (\<lambda>h w seed. case seed of None \<Rightarrow> \<lparr>latent = 0, average = 0\<rparr>
                                  | Some i \<Rightarrow> \<lparr>latent = i, average = i\<rparr>)"
  by (simp add: toy_def)




subsection \<open>The unbound seed\<close>

lemma construct_unbound:
  assumes "bind_init_tensor il (init_type a) content = None"
  shows "construct c a content styles il =
     (case parameterizations c (parameterization a) of
        None \<Rightarrow> (Inl ConfigurationError, [EvLoadParameterization (parameterization a)])
      | Some mk \<Rightarrow> (Inl UnboundLocalError, [EvLoadParameterization (parameterization a)]))"
  by (simp add: construct_def assms load_parameterization_def split: option.splits)

lemma bind_unbound:
  "il = None \<Longrightarrow> ity \<noteq> ''content'' \<Longrightarrow> ity \<noteq> ''random'' \<Longrightarrow> bind_init_tensor il ity content = None"
  by (simp add: bind_init_tensor_def)

text \<open>
  Claim C10, as stated, fails: not every call without an init image and with an
  \<^verbatim>\<open>init_type\<close> other than \<^verbatim>\<open>"content"\<close> and \<^verbatim>\<open>"random"\<close> ends with an unbound-local
  error. The images are loaded in line 70, and line 83 asks the registry for the
  parameterization before it reads \<^verbatim>\<open>init_tensor\<close>: with the choice \<^verbatim>\<open>"init_img"\<close>, no
  init image and an unknown parameterization name the call ends with a
  ConfigurationError, and with a content image that does not load it ends with
  InvalidInput.
\<close>

theorem earlier_error_preempts_unbound_init:
  "init_img (toy_args\<lparr>init_type := ''init_img'', parameterization := ''bogus''\<rparr>) = None
   \<and> init_type (toy_args\<lparr>init_type := ''init_img'', parameterization := ''bogus''\<rparr>)
     = ''init_img''
   \<and> transfer (toy id descend) (toy_args\<lparr>init_type := ''init_img'', parameterization := ''bogus''\<rparr>)
     = (Inl ConfigurationError,
        [EvLoadImages, EvToDevice, EvResample 512, EvToDevice, EvResample 512, EvMatchHistogram,
         EvLoadParameterization ''bogus''])
   \<and> init_img (toy_args\<lparr>init_type := ''init_img'', content_img := - 1\<rparr>) = None
   \<and> init_type (toy_args\<lparr>init_type := ''init_img'', content_img := - 1\<rparr>) = ''init_img''
   \<and> transfer (toy id descend) (toy_args\<lparr>init_type := ''init_img'', content_img := - 1\<rparr>)
     = (Inl InvalidInput, [EvLoadImages])"
  by (simp add: transfer_def transfer_body_def preprocess_def construct_def
      load_images_def load_parameterization_def bind_init_tensor_def toy_def toy_args_def)

text \<open>
  Claim C10, amended. A call without an init image and with an \<^verbatim>\<open>init_type\<close> other
  than \<^verbatim>\<open>"content"\<close> and \<^verbatim>\<open>"random"\<close> never returns an image and never constructs a
  parameterization: \<^verbatim>\<open>init_tensor\<close> is left unbound. When the images load and the
  parameterization name is known, the call ends with an unbound-local error, right
  after line 83 has resolved the name and before the parameterization is constructed,
  not with a ConfigurationError or InvalidInput.
\<close>

theorem unbound_init_tensor:
  assumes "init_img a = None"
    and "init_type a \<noteq> ''content''"
    and "init_type a \<noteq> ''random''"
  shows "(\<forall>img. fst (transfer c a) \<noteq> Inr img)
       \<and> filter is_construct (snd (transfer c a)) = []
       \<and> (\<forall>content styles il tr1 mk.
            preprocess c a = (Inr (content, styles, il), tr1)
              \<and> parameterizations c (parameterization a) = Some mk \<longrightarrow>
            transfer c a
              = (Inl UnboundLocalError, tr1 @ [EvLoadParameterization (parameterization a)]))"
proof (cases "load_images c (content_img a) (style_imgs a) (init_img a)")
  case (Inl e)
  then have "preprocess c a = (Inl e, [EvLoadImages])"
    by (simp add: preprocess_def)
  then show ?thesis
    by (simp add: transfer_def transfer_body_def)
next
  case (Inr x)
  obtain c0 ss0 il where x: "x = (c0, ss0, il)" by (cases x) auto
  note li = Inr [unfolded x]
  note p = preprocess_ok [OF li]
  have "il = None" using load_images_init(1) [OF li assms(1)] .
  note cu = construct_unbound [OF bind_unbound [OF this assms(2,3)], of c]
  show ?thesis
    by (cases "parameterizations c (parameterization a)")
       (simp_all add: transfer_def transfer_body_def p cu)
qed

theorem unbound_init_tensor_witness:
  "init_img (toy_args\<lparr>init_type := ''init_img''\<rparr>) = None
   \<and> transfer (toy id descend) (toy_args\<lparr>init_type := ''init_img''\<rparr>)
     = (Inl UnboundLocalError,
        [EvLoadImages, EvToDevice, EvResample 512, EvToDevice, EvResample 512, EvMatchHistogram,
         EvLoadParameterization ''rgb''])"
proof -
  let ?c = "toy id descend"
  let ?a = "toy_args\<lparr>init_type := ''init_img''\<rparr>"
  have h: "init_img ?a = None" "init_type ?a \<noteq> ''content''" "init_type ?a \<noteq> ''random''"
    by (simp_all add: toy_args_def)
  have p: "preprocess ?c ?a =
     (Inr (5, [7], None),
      [EvLoadImages, EvToDevice, EvResample 512, EvToDevice, EvResample 512, EvMatchHistogram])"
    by (simp add: preprocess_def load_images_def toy_def toy_args_def)
  have k: "parameterizations ?c (parameterization ?a) =
     Some (\<lambda>h w seed. case seed of None \<Rightarrow> \<lparr>latent = 0, average = 0\<rparr>
                                  | Some i \<Rightarrow> \<lparr>latent = i, average = i\<rparr>)"
    by (simp add: toy_args_def toy_rgb)
  have n: "parameterization ?a = ''rgb''"
    by (simp add: toy_args_def)
  from unbound_init_tensor [OF h, of ?c] p k
  have "transfer ?c ?a
      = (Inl UnboundLocalError,
         [EvLoadImages, EvToDevice, EvResample 512, EvToDevice, EvResample 512, EvMatchHistogram]
           @ [EvLoadParameterization (parameterization ?a)])"
    by blast
  then show ?thesis using h(1) by (simp add: n)
qed

subsection \<open>Unknown names\<close>





section \<open>Properties of the video upscaler\<close>

subsection \<open>One output video per input\<close>

lemma frame_reads_append: "frame_reads (xs @ ys) = frame_reads xs @ frame_reads ys"
  by (induction xs rule: frame_reads.induct) simp_all

lemma frame_writes_append: "frame_writes (xs @ ys) = frame_writes xs @ frame_writes ys"
  by (induction xs rule: frame_writes.induct) simp_all

lemma write_frames_result:
  "\<exists>body. write_frames c fs g i written w
            = (written @ outputs g (map (to_tensor c) (drop i fs)),
               w\<lparr>calls := calls w @ body\<rparr>)
       \<and> list_all is_frame_event body
       \<and> frame_reads body = [i..<i + consumed g (map (to_tensor c) (drop i fs))]
       \<and> frame_writes body = outputs g (map (to_tensor c) (drop i fs))
       \<and> consumed g (map (to_tensor c) (drop i fs)) \<le> length fs - i"
proof (induction g arbitrary: i written w)
  case Stop
  show ?case
    by (rule exI [of _ "[]"]) simp
next
  case (Yield t g)
  let ?xs = "map (to_tensor c) (drop i fs)"
  let ?w1 = "w\<lparr>calls := calls w @ [EvWrite t]\<rparr>"
  from Yield.IH [of i "written @ [t]" ?w1] obtain body where b:
    "write_frames c fs g i (written @ [t]) ?w1
       = ((written @ [t]) @ outputs g ?xs, ?w1\<lparr>calls := calls ?w1 @ body\<rparr>)"
    "list_all is_frame_event body" "frame_reads body = [i..<i + consumed g ?xs]"
    "frame_writes body = outputs g ?xs" "consumed g ?xs \<le> length fs - i"
    by blast
  show ?case
    by (rule exI [of _ "EvWrite t # body"]) (simp add: b)
next
  case (Pull kont)
  show ?case
  proof (cases "i < length fs")
    case True
    let ?x = "to_tensor c (fs ! i)"
    let ?xs = "map (to_tensor c) (drop (Suc i) fs)"
    let ?w1 = "w\<lparr>calls := calls w @ [EvReadFrame i]\<rparr>"
    have d: "map (to_tensor c) (drop i fs) = ?x # ?xs"
      using True by (simp add: Cons_nth_drop_Suc [symmetric])
    from Pull.IH [of "kont (Some ?x)" "Suc i" written ?w1] obtain body where b:
      "write_frames c fs (kont (Some ?x)) (Suc i) written ?w1
         = (written @ outputs (kont (Some ?x)) ?xs, ?w1\<lparr>calls := calls ?w1 @ body\<rparr>)"
      "list_all is_frame_event body"
      "frame_reads body = [Suc i..<Suc i + consumed (kont (Some ?x)) ?xs]"
      "frame_writes body = outputs (kont (Some ?x)) ?xs"
      "consumed (kont (Some ?x)) ?xs \<le> length fs - Suc i"
      by blast
    have r: "[i..<i + Suc (consumed (kont (Some ?x)) ?xs)]
               = i # [Suc i..<Suc i + consumed (kont (Some ?x)) ?xs]"
      by (simp add: upt_conv_Cons)
    have res: "write_frames c fs (Pull kont) i written w
         = (written @ outputs (Pull kont) (?x # ?xs),
            w\<lparr>calls := calls w @ EvReadFrame i # body\<rparr>)"
      using True b(1) by simp
    have ev: "list_all is_frame_event (EvReadFrame i # body)"
      using b(2) by simp
    have fr: "frame_reads (EvReadFrame i # body) = [i..<i + consumed (Pull kont) (?x # ?xs)]"
      using b(3) r by simp
    have fw: "frame_writes (EvReadFrame i # body) = outputs (Pull kont) (?x # ?xs)"
      using b(4) by simp
    have n: "consumed (Pull kont) (?x # ?xs) \<le> length fs - i"
      using b(5) True by simp
    show ?thesis
      unfolding d using res ev fr fw n by blast
  next
    case False
    then have d: "map (to_tensor c) (drop i fs) = []"
      by simp
    from Pull.IH [of "kont None" i written w] obtain body where b:
      "write_frames c fs (kont None) i written w
         = (written @ outputs (kont None) (map (to_tensor c) (drop i fs)),
            w\<lparr>calls := calls w @ body\<rparr>)"
      "list_all is_frame_event body"
      "frame_reads body = [i..<i + consumed (kont None) (map (to_tensor c) (drop i fs))]"
      "frame_writes body = outputs (kont None) (map (to_tensor c) (drop i fs))"
      "consumed (kont None) (map (to_tensor c) (drop i fs)) \<le> length fs - i"
      by blast
    show ?thesis
      using b False unfolding d
      by (intro exI [of _ body]) simp
  qed
qed

lemma toy_up_open:
  "open_video toy_up ''in/clip.mp4'' =
     Inr \<lparr>avg_fps = 24,
          frames = [\<lparr>frame_height = 2, frame_width = 3, pixels = 1\<rparr>,
                    \<lparr>frame_height = 2, frame_width = 3, pixels = 2\<rparr>,
                    \<lparr>frame_height = 2, frame_width = 3, pixels = 3\<rparr>]\<rparr>"
  by (simp add: toy_up_def)

lemma toy_up_out:
  "''output/clip_esrgan.mp4''
     = ''output'' @ ''/'' @ path_stem toy_up ''in/clip.mp4'' @ ''_'' @ ''esrgan'' @ ''.mp4''"
  by (simp add: toy_up_def toy_stem_def)

lemma toy_outputs:
  "outputs (each_frame 5) [1, 2, 3] = [10, 20, 30]"
  "consumed (each_frame 5) [1, 2, 3] = 3"
  by (simp_all add: eval_nat_numeral)

lemma toy_upscale:
  "upscale toy_up ''in/clip.mp4'' ''esrgan'' ''cpu'' ''output'' \<lparr>files = {}, calls = []\<rparr>
     = (Inr toy_written,
        \<lparr>files = {''output/clip_esrgan.mp4''},
         calls = [EvVideoReader ''in/clip.mp4'', EvReadFrame 0,
                  EvOpenWriter ''output/clip_esrgan.mp4'' 12 8 24, EvReadFrame 0, EvWrite 10,
                  EvReadFrame 1, EvWrite 20, EvReadFrame 2, EvWrite 30,
                  EvCloseWriter ''output/clip_esrgan.mp4'',
                  EvVideoReader ''output/clip_esrgan.mp4'']\<rparr>)"
proof -
  have s: "path_stem toy_up ''in/clip.mp4'' = ''clip''"
    by (simp add: toy_up_def toy_stem_def)
  have e: "upscale_images toy_up ''esrgan'' ''cpu'' = each_frame 5"
    "to_tensor toy_up = pixels"
    by (simp_all add: toy_up_def)
  have r: "read_written toy_up 12 8 24 [10, 20, 30] = Inr toy_written"
    by (simp add: toy_up_def toy_written_def)
  have wf: "write_frames toy_up
              [\<lparr>frame_height = 2, frame_width = 3, pixels = 1\<rparr>,
               \<lparr>frame_height = 2, frame_width = 3, pixels = 2\<rparr>,
               \<lparr>frame_height = 2, frame_width = 3, pixels = 3\<rparr>]
              (each_frame 5) 0 [] \<lparr>files = F, calls = cs\<rparr>
      = ([10, 20, 30],
         \<lparr>files = F,
          calls = cs @ [EvReadFrame 0, EvWrite 10, EvReadFrame 1, EvWrite 20, EvReadFrame 2,
                        EvWrite 30]\<rparr>)" for F and cs :: "int up_event list"
    by (simp add: eval_nat_numeral e(2))
  show ?thesis
    by (simp add: upscale_def toy_up_open out_path_def s Let_def e(1) wf r)
qed

text \<open>
  Claim C9. For an input video that \<^verbatim>\<open>VideoReader\<close> opens and that has a first frame,
  \<^verbatim>\<open>upscale\<close> opens exactly one writer, at the path
  \<^verbatim>\<open><out_dir>/<stem>_<model_name>.mp4\<close>, which exists afterwards; the declared output
  size is four times the width and four times the height of the first frame, the
  frame rate is the average frame rate of the source. Between the opening and the
  closing of the writer only frames are read and written: the source frames are read
  in the order 0, 1, 2, ..., exactly as many as \<^verbatim>\<open>upscale_images\<close> asks for and none
  twice, and the frames written are exactly the frames that \<^verbatim>\<open>upscale_images\<close> yields
  from the source frames, in the order in which it yields them. What \<^verbatim>\<open>upscale\<close>
  returns is the reader of line 26 on the file so written.
\<close>

theorem upscale_writes_one_video:
  assumes "open_video c video_file = Inr vr"
    and "frames vr = f0 # more_frames"
    and "out_file = dir @ ''/'' @ path_stem c video_file @ ''_'' @ model @ ''.mp4''"
  shows "\<exists>body.
           upscale c video_file model dev dir w =
             (read_written c (4 * frame_width f0) (4 * frame_height f0) (avg_fps vr)
                (outputs (upscale_images c model dev) (map (to_tensor c) (frames vr))),
              \<lparr>files = insert out_file (files w),
               calls = calls w
                 @ [EvVideoReader video_file, EvReadFrame 0,
                    EvOpenWriter out_file (4 * frame_width f0) (4 * frame_height f0) (avg_fps vr)]
                 @ body @ [EvCloseWriter out_file, EvVideoReader out_file]\<rparr>)
         \<and> list_all is_frame_event body
         \<and> frame_reads body
             = [0..<consumed (upscale_images c model dev) (map (to_tensor c) (frames vr))]
         \<and> consumed (upscale_images c model dev) (map (to_tensor c) (frames vr))
             \<le> length (frames vr)
         \<and> frame_writes body
             = outputs (upscale_images c model dev) (map (to_tensor c) (frames vr))"
proof -
  have o: "out_path c dir video_file model = out_file"
    by (simp add: out_path_def assms(3))
  let ?g = "upscale_images c model dev"
  let ?xs = "map (to_tensor c) (frames vr)"
  let ?w2 = "w\<lparr>files := insert out_file (files w),
               calls := calls w @ [EvVideoReader video_file, EvReadFrame 0,
                  EvOpenWriter out_file (4 * frame_width f0) (4 * frame_height f0) (avg_fps vr)]\<rparr>"
  from write_frames_result [of c "frames vr" ?g 0 "[]" ?w2]
  obtain body where b:
    "write_frames c (frames vr) ?g 0 [] ?w2 = (outputs ?g ?xs, ?w2\<lparr>calls := calls ?w2 @ body\<rparr>)"
    "list_all is_frame_event body" "frame_reads body = [0..<consumed ?g ?xs]"
    "frame_writes body = outputs ?g ?xs" "consumed ?g ?xs \<le> length (frames vr)"
    by auto
  have u: "upscale c video_file model dev dir w =
             (read_written c (4 * frame_width f0) (4 * frame_height f0) (avg_fps vr)
                (outputs ?g ?xs),
              \<lparr>files = insert out_file (files w),
               calls = calls w
                 @ [EvVideoReader video_file, EvReadFrame 0,
                    EvOpenWriter out_file (4 * frame_width f0) (4 * frame_height f0) (avg_fps vr)]
                 @ body @ [EvCloseWriter out_file, EvVideoReader out_file]\<rparr>)"
    using b(1) by (simp add: upscale_def assms(1,2) o Let_def)
  show ?thesis
    using u b(2,3,4,5) by blast
qed

theorem upscale_writes_one_video_witness:
  "upscale toy_up ''in/clip.mp4'' ''esrgan'' ''cpu'' ''output'' \<lparr>files = {}, calls = []\<rparr>
     = (Inr toy_written,
        \<lparr>files = {''output/clip_esrgan.mp4''},
         calls = [EvVideoReader ''in/clip.mp4'', EvReadFrame 0,
                  EvOpenWriter ''output/clip_esrgan.mp4'' 12 8 24, EvReadFrame 0, EvWrite 10,
                  EvReadFrame 1, EvWrite 20, EvReadFrame 2, EvWrite 30,
                  EvCloseWriter ''output/clip_esrgan.mp4'',
                  EvVideoReader ''output/clip_esrgan.mp4'']\<rparr>)
   \<and> frame_reads (calls (snd (upscale toy_up ''in/clip.mp4'' ''esrgan'' ''cpu'' ''output''
                                  \<lparr>files = {}, calls = []\<rparr>)))
     = [0, 0, 1, 2]
   \<and> frame_writes (calls (snd (upscale toy_up ''in/clip.mp4'' ''esrgan'' ''cpu'' ''output''
                                   \<lparr>files = {}, calls = []\<rparr>)))
     = [10, 20, 30]"
proof -
  let ?u = "upscale toy_up ''in/clip.mp4'' ''esrgan'' ''cpu'' ''output'' \<lparr>files = {}, calls = []\<rparr>"
  have f: "frames \<lparr>avg_fps = 24,
          frames = [\<lparr>frame_height = 2, frame_width = 3, pixels = 1::int\<rparr>,
                    \<lparr>frame_height = 2, frame_width = 3, pixels = 2\<rparr>,
                    \<lparr>frame_height = 2, frame_width = 3, pixels = 3\<rparr>]\<rparr>
      = \<lparr>frame_height = 2, frame_width = 3, pixels = 1\<rparr>
          # [\<lparr>frame_height = 2, frame_width = 3, pixels = 2\<rparr>,
             \<lparr>frame_height = 2, frame_width = 3, pixels = 3\<rparr>]"
    by simp
  have e: "upscale_images toy_up ''esrgan'' ''cpu'' = each_frame 5"
    "to_tensor toy_up = pixels"
    by (simp_all add: toy_up_def)
  from upscale_writes_one_video [OF toy_up_open f toy_up_out,
      of "''cpu''" "\<lparr>files = {}, calls = []\<rparr>"]
  obtain body where b:
    "calls (snd ?u) = [EvVideoReader ''in/clip.mp4'', EvReadFrame 0,
                       EvOpenWriter ''output/clip_esrgan.mp4'' (4 * 3) (4 * 2) 24]
                        @ body @ [EvCloseWriter ''output/clip_esrgan.mp4'',
                                  EvVideoReader ''output/clip_esrgan.mp4'']"
    "frame_reads body = [0..<consumed (each_frame 5) [1, 2, 3]]"
    "frame_writes body = outputs (each_frame 5) [1, 2, 3]"
    by (auto simp: e)
  have "[0..<3] = [0, 1, 2::nat]"
    by (simp add: upt_rec)
  then have r: "frame_reads (calls (snd ?u)) = [0, 0, 1, 2]"
    by (simp add: b(1,2) frame_reads_append toy_outputs)
  have wr: "frame_writes (calls (snd ?u)) = [10, 20, 30]"
    by (simp add: b(1,3) frame_writes_append toy_outputs)
  show ?thesis
    using r wr by (simp add: toy_upscale)
qed

subsection \<open>Skipping an existing output\<close>

lemma main_loop_append:
  "main_loop c args (xs @ ys) w =
     (case main_loop c args xs w of
        (Inl e, w') \<Rightarrow> (Inl e, w')
      | (Inr u, w') \<Rightarrow> main_loop c args ys w')"
proof (induction xs arbitrary: w)
  case Nil
  show ?case by simp
next
  case (Cons x xs)
  show ?case
    by (simp add: Cons.IH Let_def split: prod.splits sum.splits)
qed

text \<open>
  Claim C8. When the loop of \<^verbatim>\<open>main\<close> reaches an input whose output path
  \<^verbatim>\<open><out_dir>/<stem>_<model_name>.mp4\<close> exists, it goes on to the remaining inputs
  from a state that differs by one printed notice only: nothing is decoded, upscaled
  or written for that input. When the output path does not exist, the input is
  handed to \<^verbatim>\<open>upscale\<close>.
\<close>

theorem skip_existing_output:
  assumes "video_files args = before @ video_file # rest"
    and "main_loop c args before w = (Inr (), w1)"
    and "out_file = out_dir args @ ''/'' @ path_stem c video_file @ ''_'' @ model_name args
                      @ ''.mp4''"
  shows "(out_file \<in> files w1 \<longrightarrow>
            main c args w =
              main_loop c args rest
                (w1\<lparr>calls := calls w1 @
                      [EvPrint (''Skipping '' @ path_stem c video_file @ '', output ''
                                @ path_stem c out_file @ '' already exists!'')]\<rparr>))
       \<and> (out_file \<notin> files w1 \<longrightarrow>
            main c args w =
              (case upscale c video_file (model_name args) (device_name args) (out_dir args) w1 of
                 (Inl e, w') \<Rightarrow> (Inl e, w')
               | (Inr u, w') \<Rightarrow> main_loop c args rest w'))"
proof -
  have o: "out_path c (out_dir args) video_file (model_name args) = out_file"
    by (simp add: out_path_def assms(3))
  have "main c args w = main_loop c args (video_file # rest) w1"
    by (simp add: main_def assms(1) main_loop_append assms(2))
  then show ?thesis
    by (simp add: o Let_def)
qed

theorem skip_existing_output_witness:
  "main toy_up (toy_up_args\<lparr>video_files := [''in/clip.mp4'', ''in/clip.mp4'']\<rparr>)
     \<lparr>files = {}, calls = []\<rparr>
   = (Inr (),
      \<lparr>files = {''output/clip_esrgan.mp4''},
       calls = [EvVideoReader ''in/clip.mp4'', EvReadFrame 0,
                EvOpenWriter ''output/clip_esrgan.mp4'' 12 8 24, EvReadFrame 0, EvWrite 10,
                EvReadFrame 1, EvWrite 20, EvReadFrame 2, EvWrite 30,
                EvCloseWriter ''output/clip_esrgan.mp4'',
                EvVideoReader ''output/clip_esrgan.mp4'',
                EvPrint ''Skipping clip, output clip_esrgan already exists!'']\<rparr>)"
proof -
  let ?args = "toy_up_args\<lparr>video_files := [''in/clip.mp4'', ''in/clip.mp4'']\<rparr>"
  let ?w0 = "\<lparr>files = {}, calls = []\<rparr> :: int up_world"
  let ?w1 = "\<lparr>files = {''output/clip_esrgan.mp4''},
       calls = [EvVideoReader ''in/clip.mp4'', EvReadFrame 0,
                EvOpenWriter ''output/clip_esrgan.mp4'' 12 8 24, EvReadFrame 0, EvWrite 10,
                EvReadFrame 1, EvWrite 20, EvReadFrame 2, EvWrite 30,
                EvCloseWriter ''output/clip_esrgan.mp4'',
                EvVideoReader ''output/clip_esrgan.mp4'']\<rparr> :: int up_world"
  have a: "model_name ?args = ''esrgan''" "device_name ?args = ''cpu''" "out_dir ?args = ''output''"
    by (simp_all add: toy_up_args_def)
  have o: "''output/clip_esrgan.mp4''
     = out_dir ?args @ ''/'' @ path_stem toy_up ''in/clip.mp4'' @ ''_'' @ model_name ?args
         @ ''.mp4''"
    by (simp add: a toy_up_def toy_stem_def)
  have s: "path_stem toy_up ''in/clip.mp4'' = ''clip''"
    "path_stem toy_up ''output/clip_esrgan.mp4'' = ''clip_esrgan''"
    by (simp_all add: toy_up_def toy_stem_def)
  have u: "upscale toy_up ''in/clip.mp4'' ''esrgan'' ''cpu'' ''output'' ?w0
             = (Inr toy_written, ?w1)"
    by (simp add: toy_upscale)
  have v1: "video_files ?args = [] @ ''in/clip.mp4'' # [''in/clip.mp4'']"
    by simp
  have b1: "main_loop toy_up ?args [] ?w0 = (Inr (), ?w0)"
    by simp
  from skip_existing_output [OF v1 b1 o]
  have first: "main toy_up ?args ?w0 = main_loop toy_up ?args [''in/clip.mp4''] ?w1"
    by (simp add: a u)
  have v2: "video_files ?args = [''in/clip.mp4''] @ ''in/clip.mp4'' # []"
    by simp
  have b2: "main_loop toy_up ?args [''in/clip.mp4''] ?w0 = (Inr (), ?w1)"
    by (simp add: out_path_def a s u)
  from skip_existing_output [OF v2 b2 o]
  show ?thesis
    by (simp add: s)
qed

end
